theory Spec2Isabelle
  imports Complex_Main "HOL-Library.Sublist"
begin

section \<open>Data model (types.ts)\<close>

text \<open>
  JavaScript strings are modelled as \<open>string\<close>: a list of code units, here the code
  units below 256 that \<open>char\<close> offers. \<open>Date.now()\<close> and the \<open>number\<close> ids derived
  from it are integers, compared by \<open>!==\<close> as integers are.
\<close>

datatype AspectRatio = R1x1 | R16x9 | R4x3 | R3x4 | R9x16

datatype HistoryType = Template | Final | Direct

record HistoryItem =
  id_item :: int
  type_item :: HistoryType
  image_item :: string
  prompt_item :: string
  negativePrompt_item :: string
  timestamp_item :: int
  aspectRatio_item :: AspectRatio

section \<open>The store slices (historySlice, compositionSlice)\<close>

text \<open>
  The persisted part of the Zustand store. \<open>set\<close> merges the returned partial state into
  the current one, so every action is a record update.
\<close>

record StoreState =
  history :: "HistoryItem list"
  recentTemplatePrompts :: "string list"
  recentSubjectPrompts :: "string list"

definition initialStore :: StoreState where
  "initialStore = \<lparr>history = [], recentTemplatePrompts = [], recentSubjectPrompts = []\<rparr>"

text \<open>The argument of \<open>addToHistory\<close> is \<open>HistoryItem | HistoryItem[]\<close>.\<close>

datatype HistoryArg = SingleItem HistoryItem | ItemArray "HistoryItem list"

fun itemsToAdd :: "HistoryArg \<Rightarrow> HistoryItem list" where
  "itemsToAdd (ItemArray items) = items"
| "itemsToAdd (SingleItem item) = [item]"

definition addToHistory :: "HistoryArg \<Rightarrow> StoreState \<Rightarrow> StoreState" where
  "addToHistory newItem state =
     state\<lparr>history := take 50 (itemsToAdd newItem @ history state)\<rparr>"



definition addRecentTemplatePrompt :: "string \<Rightarrow> StoreState \<Rightarrow> StoreState" where
  "addRecentTemplatePrompt prompt state =
     state\<lparr>recentTemplatePrompts :=
       take 10 (prompt # filter (\<lambda>p. p \<noteq> prompt) (recentTemplatePrompts state))\<rparr>"

definition addRecentSubjectPrompt :: "string \<Rightarrow> StoreState \<Rightarrow> StoreState" where
  "addRecentSubjectPrompt prompt state =
     state\<lparr>recentSubjectPrompts :=
       take 10 (prompt # filter (\<lambda>p. p \<noteq> prompt) (recentSubjectPrompts state))\<rparr>"

text \<open>
  The component variant keeps the same two collections in local state with a cap of 5:
  the history update of DirectGenerationMode and the recent-prompt effect of
  CompositionMode, both given a state updater \<open>prev => ...\<close>.
\<close>

definition directHistoryUpdate :: "HistoryItem list \<Rightarrow> HistoryItem list \<Rightarrow> HistoryItem list" where
  "directHistoryUpdate newHistoryItems prev = take 5 (newHistoryItems @ prev)"

definition recentTemplatePromptsUpdate :: "string \<Rightarrow> string list \<Rightarrow> string list" where
  "recentTemplatePromptsUpdate currentPrompt prev =
     take 5 (currentPrompt # filter (\<lambda>p. p \<noteq> currentPrompt) prev)"

text \<open>The states of the recent-prompt list that the store can reach from its initial state.\<close>

inductive recentReachable :: "StoreState \<Rightarrow> bool" where
  reach_init: "recentReachable initialStore"
| reach_add: "recentReachable s \<Longrightarrow> recentReachable (addRecentTemplatePrompt p s)"

text \<open>A history entry with a given id, used to write concrete histories.\<close>

definition sampleItem :: "int \<Rightarrow> HistoryItem" where
  "sampleItem n = \<lparr>id_item = n, type_item = Direct, image_item = ''data:image/png;base64,AA'',
     prompt_item = ''a red kite'', negativePrompt_item = '''', timestamp_item = n,
     aspectRatio_item = R1x1\<rparr>"

section \<open>Promises\<close>

text \<open>
  A promise is modelled by the way it settles. A thrown value or rejection reason is a
  \<open>jserror\<close>. \<open>Promise.allSettled\<close> never rejects and reports every outcome.
\<close>

datatype jserror = JsError string

datatype 'a settled = Fulfilled 'a | Rejected jserror

datatype 'a settledResult = FulfilledResult 'a | RejectedResult jserror

fun toSettledResult :: "'a settled \<Rightarrow> 'a settledResult" where
  "toSettledResult (Fulfilled v) = FulfilledResult v"
| "toSettledResult (Rejected e) = RejectedResult e"

definition promiseAllSettled :: "'a settled list \<Rightarrow> 'a settledResult list" where
  "promiseAllSettled promises = map toSettledResult promises"




text \<open>JavaScript truthiness of a \<open>string | null\<close> value.\<close>

definition truthy :: "string option \<Rightarrow> bool" where
  "truthy v = (case v of None \<Rightarrow> False | Some s \<Rightarrow> s \<noteq> [])"

fun str :: "string option \<Rightarrow> string" where
  "str None = []"
| "str (Some s) = s"

section \<open>Stock search aggregator (stock-api.ts)\<close>

datatype StockProvider = Pexels | Unsplash | Pixabay

record UnifiedStockImage =
  id_img :: string
  alt_img :: string
  photographer_img :: string
  url_small :: string
  url_large :: string
  provider_img :: StockProvider

text \<open>What a provider promise fulfils with: an array of images, or a value that is no array.\<close>

datatype providerValue = ImageArray "UnifiedStockImage list" | NonArray

fun keepResult :: "providerValue settledResult \<Rightarrow> bool" where
  "keepResult (FulfilledResult (ImageArray xs)) = True"
| "keepResult (FulfilledResult NonArray) = False"
| "keepResult (RejectedResult e) = False"

fun resultValue :: "providerValue settledResult \<Rightarrow> UnifiedStockImage list" where
  "resultValue (FulfilledResult (ImageArray xs)) = xs"
| "resultValue (FulfilledResult NonArray) = []"
| "resultValue (RejectedResult e) = []"

text \<open>
  The arguments are the outcomes of the three provider requests
  \<open>searchPexelsImages\<close>, \<open>searchUnsplashImages\<close>, \<open>searchPixabayImages\<close>; the result is
  the outcome of the promise that \<open>searchAllStockSites\<close> returns.
\<close>

definition searchAllStockSites ::
    "providerValue settled \<Rightarrow> providerValue settled \<Rightarrow> providerValue settled
      \<Rightarrow> UnifiedStockImage list settled" where
  "searchAllStockSites pexels unsplash pixabay =
     (let providers = [pexels, unsplash, pixabay];
          results = promiseAllSettled providers;
          allImages = concat (map resultValue (filter keepResult results))
      in Fulfilled allImages)"

section \<open>The generation capability (gemini-api.ts)\<close>

text \<open>
  \<open>ai.models.generateContent\<close> is external: it is a parameter that gives, for the n-th call
  and its request, how the call settles. A response is the list of its candidates, each the
  list of the parts of its content.
\<close>

datatype part = InlineData string | TextPart string

type_synonym response = "part list list"

record GenRequest =
  model_req :: string
  inlineData_req :: "string option list"
  text_req :: string

type_synonym genContent = "nat \<Rightarrow> GenRequest \<Rightarrow> response settled"

fun splitOn :: "char \<Rightarrow> string \<Rightarrow> string list" where
  "splitOn c [] = [] # []"
| "splitOn c (x # xs) =
     (if x = c then [] # splitOn c xs
      else (case splitOn c xs of [] \<Rightarrow> [x] # [] | w # ws \<Rightarrow> (x # w) # ws))"

text \<open>\<open>s.split(',')[1]\<close>, undefined when there is no comma.\<close>

definition dataAfterComma :: "string \<Rightarrow> string option" where
  "dataAfterComma s = (case splitOn CHR '','' s of a # d # rest \<Rightarrow> Some d | _ \<Rightarrow> None)"

definition withNegative :: "string \<Rightarrow> string option \<Rightarrow> string" where
  "withNegative prompt negativePrompt =
     (if truthy negativePrompt then prompt @ ''. AVOID THE FOLLOWING: '' @ str negativePrompt
      else prompt)"

text \<open>The loop over \<open>response.candidates[0].content.parts\<close>.\<close>

fun firstInlineData :: "part list \<Rightarrow> string option" where
  "firstInlineData [] = None"
| "firstInlineData (InlineData d # ps) = Some (''data:image/png;base64,'' @ d)"
| "firstInlineData (TextPart t # ps) = firstInlineData ps"

definition imageOfResponse :: "response settled \<Rightarrow> string option settled" where
  "imageOfResponse r =
     (case r of
        Rejected e \<Rightarrow> Rejected e
      | Fulfilled [] \<Rightarrow> Rejected (JsError ''TypeError'')
      | Fulfilled (c # cs) \<Rightarrow> Fulfilled (firstInlineData c))"



definition generateFinalImage ::
    "genContent \<Rightarrow> string \<Rightarrow> string \<Rightarrow> string option \<Rightarrow> string option
      \<Rightarrow> string option settled \<times> GenRequest list" where
  "generateFinalImage ai subjectPrompt templateImage styleReferenceImage negativePrompt =
     (let parts0 = [dataAfterComma templateImage];
          parts1 = (if truthy styleReferenceImage
                    then parts0 @ [dataAfterComma (str styleReferenceImage)] else parts0);
          finalPrompt0 = (if truthy styleReferenceImage
                    then ''Using the first image as the base layout and the second image for artistic style reference, '' @ subjectPrompt
                    else subjectPrompt);
          finalPrompt = withNegative finalPrompt0 negativePrompt;
          request = \<lparr>model_req = ''gemini-2.5-flash-image-preview'',
                     inlineData_req = parts1, text_req = finalPrompt\<rparr>
      in (imageOfResponse (ai 0 request), [request]))"

text \<open>
  \<open>ai.models.generateImages\<close>, the text-to-image capability: it settles with the list of
  the image bytes of \<open>response.generatedImages\<close>.
\<close>

record ImagesRequest =
  prompt_ireq :: string
  numberOfImages_ireq :: nat
  aspectRatio_ireq :: AspectRatio

type_synonym genImages = "ImagesRequest \<Rightarrow> string list settled"

definition generateTemplateImage ::
    "genImages \<Rightarrow> string \<Rightarrow> string option \<Rightarrow> AspectRatio \<Rightarrow> string settled \<times> ImagesRequest list" where
  "generateTemplateImage ai prompt negativePrompt aspectRatio =
     (let fullPrompt = withNegative prompt negativePrompt;
          request = \<lparr>prompt_ireq = fullPrompt, numberOfImages_ireq = 1,
                     aspectRatio_ireq = aspectRatio\<rparr>
      in (case ai request of
            Rejected e \<Rightarrow> Rejected e
          | Fulfilled [] \<Rightarrow> Rejected (JsError ''TypeError'')
          | Fulfilled (imageBytes # others) \<Rightarrow> Fulfilled (''data:image/png;base64,'' @ imageBytes),
          [request]))"

section \<open>Variation generator (VariationGenerator.tsx)\<close>





fun firstCallNoImage :: genContent where
  "firstCallNoImage 0 request = Fulfilled ([TextPart ''I cannot change this image.''] # [])"
| "firstCallNoImage (Suc n) request = Fulfilled ([InlineData ''QUJD''] # [])"




section \<open>Composition mode (CompositionMode.tsx)\<close>

record FormState =
  image_fs :: "string option"
  error_fs :: "string option"
  promptUsed_fs :: "(string \<times> int) option"

record TemplateFormData =
  template_prompt_fd :: "string option"
  negative_prompt_tfd :: "string option"
  aspect_ratio_fd :: AspectRatio

text \<open>
  \<open>now\<close> is the value of \<open>Date.now()\<close>; the reads within one action or effect run are
  taken to give the same value.
\<close>

definition generateTemplateAction ::
    "genImages \<Rightarrow> int \<Rightarrow> FormState \<Rightarrow> TemplateFormData \<Rightarrow> FormState \<times> ImagesRequest list" where
  "generateTemplateAction ai now previousState formData =
     (let prompt = template_prompt_fd formData;
          negativePrompt = negative_prompt_tfd formData;
          aspectRatio = aspect_ratio_fd formData
      in if \<not> truthy prompt
         then (previousState\<lparr>error_fs := Some ''Template prompt is required.''\<rparr>, [])
         else (case generateTemplateImage ai (str prompt) negativePrompt aspectRatio of
                 (Fulfilled result, calls) \<Rightarrow>
                   (\<lparr>image_fs = Some result, error_fs = None,
                     promptUsed_fs = Some (str prompt, now)\<rparr>, calls)
               | (Rejected e, calls) \<Rightarrow>
                   (\<lparr>image_fs = None, error_fs = Some ''Failed to generate template image.'',
                     promptUsed_fs = None\<rparr>, calls)))"

record File =
  size_file :: nat

record FinalFormData =
  subject_prompt_fd :: "string option"
  negative_prompt_ffd :: "string option"
  selected_template_fd :: "string option"
  style_ref_fd :: "File option"

text \<open>
  \<open>fileToBase64\<close> reads a file through the browser's FileReader; how that settles is a
  parameter. The second component of the result lists the requests dispatched to the
  external generation capability.
\<close>

definition generateFinalImageAction ::
    "genContent \<Rightarrow> (File \<Rightarrow> string settled) \<Rightarrow> int \<Rightarrow> FormState \<Rightarrow> FinalFormData
      \<Rightarrow> FormState \<times> GenRequest list" where
  "generateFinalImageAction ai fileToBase64 now previousState formData =
     (let subjectPrompt = subject_prompt_fd formData;
          negativePrompt = negative_prompt_ffd formData;
          selectedTemplate = selected_template_fd formData;
          styleRefFile = style_ref_fd formData
      in if \<not> truthy subjectPrompt
         then (previousState\<lparr>error_fs := Some ''Subject prompt is required.''\<rparr>, [])
         else if \<not> truthy selectedTemplate
         then (previousState\<lparr>error_fs := Some ''A template must be selected.''\<rparr>, [])
         else (case (case styleRefFile of
                       None \<Rightarrow> Fulfilled None
                     | Some f \<Rightarrow>
                         (if size_file f > 0
                          then (case fileToBase64 f of
                                  Fulfilled s \<Rightarrow> Fulfilled (Some s)
                                | Rejected err \<Rightarrow> Rejected err)
                          else Fulfilled None)) of
                 Rejected err \<Rightarrow>
                   (\<lparr>image_fs = None,
                     error_fs = Some ''Could not process the style reference image.'',
                     promptUsed_fs = None\<rparr>, [])
               | Fulfilled styleReferenceImage \<Rightarrow>
                   (case generateFinalImage ai (str subjectPrompt) (str selectedTemplate)
                           styleReferenceImage negativePrompt of
                      (Fulfilled result, calls) \<Rightarrow>
                        (if truthy result
                         then (\<lparr>image_fs = result, error_fs = None,
                                promptUsed_fs = Some (str subjectPrompt, now)\<rparr>, calls)
                         else (\<lparr>image_fs = None,
                                error_fs = Some ''The model did not return an image. Try adjusting your prompt.'',
                                promptUsed_fs = None\<rparr>, calls))
                    | (Rejected e, calls) \<Rightarrow>
                        (\<lparr>image_fs = None, error_fs = Some ''Failed to generate final image.'',
                          promptUsed_fs = None\<rparr>, calls))))"

text \<open>A file reader that succeeds on every file.\<close>

fun fileReadOk :: "File \<Rightarrow> string settled" where
  "fileReadOk f = Fulfilled ''data:image/png;base64,U1RZ''"

text \<open>
  The part of the component's state that the template stage touches; \<open>negativePrompt\<close>,
  \<open>aspectRatio\<close> and \<open>history\<close> are props of the component.
\<close>

record CompositionState =
  selectedTemplate :: "string option"
  displayTemplateImage :: "string option"
  history_c :: "HistoryItem list"
  negativePrompt_c :: string
  aspectRatio_c :: AspectRatio

definition initialComposition :: CompositionState where
  "initialComposition = \<lparr>selectedTemplate = None, displayTemplateImage = None, history_c = [],
     negativePrompt_c = [], aspectRatio_c = R16x9\<rparr>"

text \<open>The body of the effect that handles the result of the template action.\<close>

definition templateResultBody :: "int \<Rightarrow> FormState \<Rightarrow> CompositionState \<Rightarrow> CompositionState" where
  "templateResultBody now templateState st =
     (if truthy (image_fs templateState)
      then (let newHistoryItem =
                  \<lparr>id_item = now, type_item = Template, image_item = str (image_fs templateState),
                   prompt_item = (case promptUsed_fs templateState of
                                    None \<Rightarrow> [] | Some (p, t) \<Rightarrow> p),
                   negativePrompt_item = negativePrompt_c st, timestamp_item = now,
                   aspectRatio_item = aspectRatio_c st\<rparr>
            in st\<lparr>selectedTemplate := image_fs templateState,
                  displayTemplateImage := image_fs templateState,
                  history_c := take 5 (newHistoryItem # history_c st)\<rparr>)
      else st)"

text \<open>
  The effect has the dependency list \<open>[templateState.image]\<close>: after a render it runs only
  if that value differs from the one of the previous render.
\<close>

definition templateResultEffect ::
    "int \<Rightarrow> FormState \<Rightarrow> FormState \<Rightarrow> CompositionState \<Rightarrow> CompositionState" where
  "templateResultEffect now previousTemplateState templateState st =
     (if image_fs templateState = image_fs previousTemplateState then st
      else templateResultBody now templateState st)"

text \<open>A stage-1 submission: the action, then the effect of the render that follows.\<close>

definition submitTemplate ::
    "genImages \<Rightarrow> int \<Rightarrow> TemplateFormData \<Rightarrow> FormState \<times> CompositionState
      \<Rightarrow> FormState \<times> CompositionState" where
  "submitTemplate ai now formData cfg =
     (let templateState = fst (generateTemplateAction ai now (fst cfg) formData)
      in (templateState, templateResultEffect now (fst cfg) templateState (snd cfg)))"

text \<open>
  The button "Use This Template": disabled, so without effect, when nothing is displayed or
  the displayed template is the selected one already.
\<close>

definition useThisTemplate :: "CompositionState \<Rightarrow> CompositionState" where
  "useThisTemplate st =
     (if \<not> truthy (displayTemplateImage st) \<or> selectedTemplate st = displayTemplateImage st
      then st
      else st\<lparr>selectedTemplate := displayTemplateImage st\<rparr>)"

definition initialFormState :: FormState where
  "initialFormState = \<lparr>image_fs = None, error_fs = None, promptUsed_fs = None\<rparr>"

text \<open>A text-to-image capability that answers every request with the same image bytes.\<close>

fun imagesOk :: "string \<Rightarrow> genImages" where
  "imagesOk bytes request = Fulfilled [bytes]"

definition templateForm :: "string \<Rightarrow> TemplateFormData" where
  "templateForm p = \<lparr>template_prompt_fd = Some p, negative_prompt_tfd = Some [],
     aspect_ratio_fd = R16x9\<rparr>"

text \<open>
  The spec's wording of the join, to compare with the code: a fulfilled provider
  contributes its result list, any other provider contributes nothing.
\<close>

fun fulfilledResponse :: "providerValue settled \<Rightarrow> UnifiedStockImage list" where
  "fulfilledResponse (Fulfilled (ImageArray xs)) = xs"
| "fulfilledResponse (Fulfilled NonArray) = []"
| "fulfilledResponse (Rejected e) = []"

definition stockImage :: "StockProvider \<Rightarrow> string \<Rightarrow> UnifiedStockImage" where
  "stockImage p i = \<lparr>id_img = i, alt_img = ''kite'', photographer_img = ''Ann'',
     url_small = ''https://img.example/s'', url_large = ''https://img.example/l'',
     provider_img = p\<rparr>"


section \<open>Negative-prompt suggestion (gemini-api.ts)\<close>

text \<open>
  The text capability settles with \<open>response.text\<close>, which may be undefined. The string
  methods are modelled on code units: \<open>trim\<close> removes white space and line terminators at
  both ends, the first \<open>replace\<close> removes a leading and a trailing double quote, the second
  removes the first occurrence of "Negative Prompt: " in any letter case.
\<close>

record TextRequest =
  model_treq :: string
  contents_treq :: string
  maxOutputTokens_treq :: nat

type_synonym genText = "TextRequest \<Rightarrow> string option settled"

definition isWhiteSpace :: "char \<Rightarrow> bool" where
  "isWhiteSpace c = ((of_char c :: nat) \<in> {9, 10, 11, 12, 13, 32, 160})"

definition trim :: "string \<Rightarrow> string" where
  "trim s = rev (dropWhile isWhiteSpace (rev (dropWhile isWhiteSpace s)))"

definition stripQuotes :: "string \<Rightarrow> string" where
  "stripQuotes s =
     (let s1 = (case s of [] \<Rightarrow> [] | c # cs \<Rightarrow> if c = CHR 0x22 then cs else s)
      in if s1 \<noteq> [] \<and> last s1 = CHR 0x22 then butlast s1 else s1)"

definition toLowerAscii :: "char \<Rightarrow> char" where
  "toLowerAscii c =
     (if 65 \<le> (of_char c :: nat) \<and> (of_char c :: nat) \<le> 90
      then char_of ((of_char c :: nat) + 32) else c)"

fun removeFirstCI :: "string \<Rightarrow> string \<Rightarrow> string" where
  "removeFirstCI pat [] = []"
| "removeFirstCI pat (c # cs) =
     (if map toLowerAscii (take (length pat) (c # cs)) = map toLowerAscii pat
      then drop (length pat) (c # cs)
      else c # removeFirstCI pat cs)"

definition negativePromptRequest :: "string \<Rightarrow> TextRequest" where
  "negativePromptRequest mainPrompt =
     \<lparr>model_treq = ''gemini-2.5-flash'',
      contents_treq = ''Generate a negative prompt for the following main prompt: ''
                        @ [CHR 0x22] @ mainPrompt @ [CHR 0x22],
      maxOutputTokens_treq = 60\<rparr>"

text \<open>The second component lists the requests sent to the external capability.\<close>

definition generateNegativePrompt :: "genText \<Rightarrow> string \<Rightarrow> string settled \<times> TextRequest list" where
  "generateNegativePrompt ai mainPrompt =
     (if trim mainPrompt = [] then (Fulfilled [], [])
      else (let request = negativePromptRequest mainPrompt
            in (case ai request of
                  Rejected e \<Rightarrow> Rejected e
                | Fulfilled None \<Rightarrow> Rejected (JsError ''TypeError'')
                | Fulfilled (Some responseText) \<Rightarrow>
                    (let text = trim (removeFirstCI ''Negative Prompt: ''
                                        (stripQuotes (trim responseText)))
                     in Fulfilled (take 200 text)),
                [request])))"

text \<open>A text capability that answers every request with the given text.\<close>

fun textOk :: "string \<Rightarrow> genText" where
  "textOk t request = Fulfilled (Some t)"

section \<open>Canvas\<close>

text \<open>
  A canvas is its width, its height and the colour of each pixel; a colour has channels
  between 0 and 1 and is not premultiplied. Drawing composes a source colour with the
  colour already there, by the Porter-Duff operator that \<open>globalCompositeOperation\<close>
  names: \<open>source-over\<close>, the default, and \<open>source-in\<close>, which keeps the source where the
  destination is, with the product of the two alphas. A pixel that a drawing operation
  does not cover has the transparent source.
\<close>

record rgba =
  red :: rat
  green :: rat
  blue :: rat
  alpha :: rat

definition transparent :: rgba where
  "transparent = \<lparr>red = 0, green = 0, blue = 0, alpha = 0\<rparr>"

definition white :: rgba where
  "white = \<lparr>red = 1, green = 1, blue = 1, alpha = 1\<rparr>"

definition black :: rgba where
  "black = \<lparr>red = 0, green = 0, blue = 0, alpha = 1\<rparr>"

text \<open>The brush colour \<open>rgba(255, 255, 255, 0.7)\<close>.\<close>

definition brush :: rgba where
  "brush = \<lparr>red = 1, green = 1, blue = 1, alpha = 7 / 10\<rparr>"

definition sourceOver :: "rgba \<Rightarrow> rgba \<Rightarrow> rgba" where
  "sourceOver s d =
     (let ao = alpha s + alpha d * (1 - alpha s)
      in if ao = 0 then transparent
         else \<lparr>red = (alpha s * red s + alpha d * red d * (1 - alpha s)) / ao,
               green = (alpha s * green s + alpha d * green d * (1 - alpha s)) / ao,
               blue = (alpha s * blue s + alpha d * blue d * (1 - alpha s)) / ao,
               alpha = ao\<rparr>)"

definition sourceIn :: "rgba \<Rightarrow> rgba \<Rightarrow> rgba" where
  "sourceIn s d =
     (let ao = alpha s * alpha d
      in if ao = 0 then transparent else s\<lparr>alpha := ao\<rparr>)"

datatype compositeOperation = SourceOver | SourceIn

fun compose :: "compositeOperation \<Rightarrow> rgba \<Rightarrow> rgba \<Rightarrow> rgba" where
  "compose SourceOver s d = sourceOver s d"
| "compose SourceIn s d = sourceIn s d"

record canvas =
  width_cv :: int
  height_cv :: int
  pixel_cv :: "int \<Rightarrow> int \<Rightarrow> rgba"

text \<open>
  A canvas of the given width and height, both in the range 0 to 2147483647 that a canvas
  dimension has; it is transparent black.
\<close>

definition createCanvas :: "int \<Rightarrow> int \<Rightarrow> canvas" where
  "createCanvas w h = \<lparr>width_cv = w, height_cv = h, pixel_cv = (\<lambda>x y. transparent)\<rparr>"

text \<open>
  Assigning a number to \<open>canvas.width\<close> or \<open>canvas.height\<close>: the attribute is an unsigned
  long, so the number is taken modulo \<open>2 ^ 32\<close>, and a result above 2147483647 is
  replaced by the default of the attribute (300 for the width, 150 for the height). The
  numbers here are integers, sums of an image size and parsed paddings.
\<close>

definition canvasDimension :: "int \<Rightarrow> int \<Rightarrow> int" where
  "canvasDimension dflt v =
     (if v mod 4294967296 \<le> 2147483647 then v mod 4294967296 else dflt)"

definition inRect :: "int \<Rightarrow> int \<Rightarrow> int \<Rightarrow> int \<Rightarrow> int \<Rightarrow> int \<Rightarrow> bool" where
  "inRect x0 y0 w h x y = (x0 \<le> x \<and> x < x0 + w \<and> y0 \<le> y \<and> y < y0 + h)"

definition fillRect ::
    "compositeOperation \<Rightarrow> rgba \<Rightarrow> int \<Rightarrow> int \<Rightarrow> int \<Rightarrow> int \<Rightarrow> canvas \<Rightarrow> canvas" where
  "fillRect op fillStyle x0 y0 w h cv =
     cv\<lparr>pixel_cv := (\<lambda>x y. compose op (if inRect x0 y0 w h x y then fillStyle else transparent)
                                 (pixel_cv cv x y))\<rparr>"

text \<open>\<open>drawImage(src, dx, dy)\<close>, and \<open>drawImage(src, dx, dy, dw, dh)\<close> at the source's own size.\<close>

definition drawImage :: "compositeOperation \<Rightarrow> canvas \<Rightarrow> int \<Rightarrow> int \<Rightarrow> canvas \<Rightarrow> canvas" where
  "drawImage op src dx dy cv =
     cv\<lparr>pixel_cv := (\<lambda>x y. compose op
                          (if inRect dx dy (width_cv src) (height_cv src) x y
                           then pixel_cv src (x - dx) (y - dy) else transparent)
                          (pixel_cv cv x y))\<rparr>"

text \<open>
  One dab of the brush on the overlay: a filled circle in the brush colour. The
  rasteriser decides how much of each pixel the circle covers (1 inside, 0 outside, in
  between on the anti-aliased rim); that coverage is a parameter.
\<close>

definition fillArc :: "(int \<Rightarrow> int \<Rightarrow> rat) \<Rightarrow> canvas \<Rightarrow> canvas" where
  "fillArc coverage cv =
     cv\<lparr>pixel_cv := (\<lambda>x y. sourceOver (brush\<lparr>alpha := alpha brush * coverage x y\<rparr>)
                                    (pixel_cv cv x y))\<rparr>"

section \<open>Mask synthesis (AdvancedImageEditor.tsx)\<close>

datatype editMode = Inpaint | Outpaint

record Padding =
  top_pad :: int
  right_pad :: int
  bottom_pad :: int
  left_pad :: int

text \<open>
  The value of a hidden form input: the source string of the current image, or the PNG
  data URL of a canvas, which stands for the canvas itself.
\<close>

datatype imageValue = ImageSrc string | CanvasPng canvas

record EditForm =
  base_image_ef :: "imageValue option"
  mask_image_ef :: "imageValue option"

text \<open>
  The temporary and the final canvas are given the overlay's own width and height, which
  are canvas dimensions already, so the assignment keeps them.
\<close>

definition inpaintMask :: "canvas \<Rightarrow> canvas" where
  "inpaintMask maskCanvas =
     (let tempCanvas = createCanvas (width_cv maskCanvas) (height_cv maskCanvas);
          temp1 = drawImage SourceOver maskCanvas 0 0 tempCanvas;
          temp2 = fillRect SourceIn white 0 0 (width_cv temp1) (height_cv temp1) temp1;
          finalMaskCanvas = createCanvas (width_cv maskCanvas) (height_cv maskCanvas);
          final1 = fillRect SourceOver black 0 0 (width_cv finalMaskCanvas)
                     (height_cv finalMaskCanvas) finalMaskCanvas
      in drawImage SourceOver temp2 0 0 final1)"

text \<open>
  \<open>originalDims\<close> is the width and height that the load effect read from the current
  image, the image that \<open>originalImageRef\<close> shows, so the image is drawn at its own size.
\<close>

definition outpaintBase :: "canvas option \<Rightarrow> int \<times> int \<Rightarrow> Padding \<Rightarrow> canvas" where
  "outpaintBase originalImageRef originalDims padding =
     (let origW = fst originalDims; origH = snd originalDims;
          newWidth = origW + left_pad padding + right_pad padding;
          newHeight = origH + top_pad padding + bottom_pad padding;
          baseCanvas = createCanvas (canvasDimension 300 newWidth)
                         (canvasDimension 150 newHeight);
          base1 = fillRect SourceOver white 0 0 newWidth newHeight baseCanvas
      in case originalImageRef of
           None \<Rightarrow> base1
         | Some img \<Rightarrow> drawImage SourceOver img (left_pad padding) (top_pad padding) base1)"

definition outpaintMask :: "int \<times> int \<Rightarrow> Padding \<Rightarrow> canvas" where
  "outpaintMask originalDims padding =
     (let origW = fst originalDims; origH = snd originalDims;
          newWidth = origW + left_pad padding + right_pad padding;
          newHeight = origH + top_pad padding + bottom_pad padding;
          maskCanvas = createCanvas (canvasDimension 300 newWidth)
                         (canvasDimension 150 newHeight);
          mask1 = fillRect SourceOver white 0 0 newWidth newHeight maskCanvas
      in fillRect SourceOver black (left_pad padding) (top_pad padding) origW origH mask1)"

definition handleSubmit ::
    "editMode \<Rightarrow> string \<Rightarrow> canvas option \<Rightarrow> canvas option \<Rightarrow> int \<times> int \<Rightarrow> Padding
      \<Rightarrow> EditForm \<Rightarrow> EditForm" where
  "handleSubmit mode currentImage maskCanvasRef originalImageRef originalDims padding form =
     (case mode of
        Inpaint \<Rightarrow>
          (case maskCanvasRef of
             None \<Rightarrow> form\<lparr>base_image_ef := Some (ImageSrc currentImage)\<rparr>
           | Some maskCanvas \<Rightarrow>
               form\<lparr>base_image_ef := Some (ImageSrc currentImage),
                    mask_image_ef := Some (CanvasPng (inpaintMask maskCanvas))\<rparr>)
      | Outpaint \<Rightarrow>
          form\<lparr>base_image_ef := Some (CanvasPng (outpaintBase originalImageRef originalDims padding)),
               mask_image_ef := Some (CanvasPng (outpaintMask originalDims padding))\<rparr>)"

definition emptyForm :: EditForm where
  "emptyForm = \<lparr>base_image_ef = None, mask_image_ef = None\<rparr>"

text \<open>Concrete inputs: a dab that covers every pixel fully, and a uniformly grey image.\<close>

fun fullCoverage :: "int \<Rightarrow> int \<Rightarrow> rat" where
  "fullCoverage x y = 1"

fun greyPixel :: "int \<Rightarrow> int \<Rightarrow> rgba" where
  "greyPixel x y = \<lparr>red = 1 / 2, green = 1 / 2, blue = 1 / 2, alpha = 1\<rparr>"

definition greyImage :: "int \<Rightarrow> int \<Rightarrow> canvas" where
  "greyImage w h = \<lparr>width_cv = w, height_cv = h, pixel_cv = greyPixel\<rparr>"

section \<open>Recency store: helper lemmas\<close>

lemma mru_insert_length:
  assumes "p \<in> set xs"
  shows "length (take n (p # filter (\<lambda>q. q \<noteq> p) xs)) \<le> length xs"
proof -
  have "length (filter (\<lambda>q. q \<noteq> p) xs) < length xs"
    using assms by (simp add: length_filter_less)
  then show ?thesis by simp
qed

lemma mru_insert_hd:
  assumes "0 < n"
  shows "hd (take n (p # filter (\<lambda>q. q \<noteq> p) xs)) = p"
  using assms by (cases n) simp_all

lemma mru_insert_distinct:
  assumes "distinct xs"
  shows "distinct (take n (p # filter (\<lambda>q. q \<noteq> p) xs))"
proof -
  have "distinct (p # filter (\<lambda>q. q \<noteq> p) xs)"
    using assms by simp
  then show ?thesis by (rule distinct_take)
qed

lemma mru_insert_count:
  assumes "0 < n"
  shows "count_list (take n (p # filter (\<lambda>q. q \<noteq> p) xs)) p = 1"
proof -
  obtain m where n: "n = Suc m" using assms by (cases n) auto
  have "p \<notin> set (take m (filter (\<lambda>q. q \<noteq> p) xs))"
    using in_set_takeD by fastforce
  then have "count_list (take m (filter (\<lambda>q. q \<noteq> p) xs)) p = 0"
    by (simp add: count_list_0_iff)
  then show ?thesis by (simp add: n)
qed

lemma filter_neq_removeAll: "filter (\<lambda>q. q \<noteq> p) xs = removeAll p xs"
  by (induction xs) auto

lemma recentReachable_distinct:
  "recentReachable s \<Longrightarrow> distinct (recentTemplatePrompts s) \<and> length (recentTemplatePrompts s) \<le> 10"
proof (induction rule: recentReachable.induct)
  case reach_init
  show ?case by (simp add: initialStore_def)
next
  case (reach_add s p)
  then show ?case
    using mru_insert_distinct [of "recentTemplatePrompts s" 10 p]
    by (simp add: addRecentTemplatePrompt_def)
qed



lemma take_cap:
  "length (take k L) = min k (length L)
   \<and> prefix (take k L) L
   \<and> (\<forall>i < length (take k L). take k L ! i = L ! i)
   \<and> (k < length L \<longrightarrow> length (take k L) = k)
   \<and> (length L \<le> k \<longrightarrow> take k L = L)
   \<and> take k L @ drop k L = L"
  by (simp add: take_is_prefix)

section \<open>Recency store: recent-prompt insert\<close>

text \<open>
  C7. Inserting a string into a recent-prompt list removes every occurrence of that exact
  string, puts the string in front and cuts the list at the cap (10 in the store slice, 5 in
  the component). The inserted string is then the first entry and occurs exactly once; if the
  list already held the string, the list does not grow; a list without duplicates (every
  list the store reaches from its empty initial state is one) stays without duplicates.
  Nothing but the recent-prompt list changes.
\<close>

theorem addRecentTemplatePrompt_mru:
  "recentTemplatePrompts (addRecentTemplatePrompt p s)
     = take 10 (p # removeAll p (recentTemplatePrompts s))
   \<and> hd (recentTemplatePrompts (addRecentTemplatePrompt p s)) = p
   \<and> count_list (recentTemplatePrompts (addRecentTemplatePrompt p s)) p = 1
   \<and> (p \<in> set (recentTemplatePrompts s) \<longrightarrow>
        length (recentTemplatePrompts (addRecentTemplatePrompt p s))
          \<le> length (recentTemplatePrompts s))
   \<and> (distinct (recentTemplatePrompts s) \<longrightarrow>
        distinct (recentTemplatePrompts (addRecentTemplatePrompt p s)))
   \<and> (recentReachable s \<longrightarrow>
        distinct (recentTemplatePrompts (addRecentTemplatePrompt p s)))
   \<and> history (addRecentTemplatePrompt p s) = history s
   \<and> recentSubjectPrompts (addRecentTemplatePrompt p s) = recentSubjectPrompts s
   \<and> recentTemplatePromptsUpdate p prev = take 5 (p # removeAll p prev)
   \<and> hd (recentTemplatePromptsUpdate p prev) = p
   \<and> count_list (recentTemplatePromptsUpdate p prev) p = 1
   \<and> (p \<in> set prev \<longrightarrow> length (recentTemplatePromptsUpdate p prev) \<le> length prev)
   \<and> (distinct prev \<longrightarrow> distinct (recentTemplatePromptsUpdate p prev))"
proof -
  let ?xs = "recentTemplatePrompts s"
  have store: "recentTemplatePrompts (addRecentTemplatePrompt p s)
      = take 10 (p # filter (\<lambda>q. q \<noteq> p) ?xs)"
    by (simp add: addRecentTemplatePrompt_def)
  have frame: "history (addRecentTemplatePrompt p s) = history s
      \<and> recentSubjectPrompts (addRecentTemplatePrompt p s) = recentSubjectPrompts s"
    by (simp add: addRecentTemplatePrompt_def)
  have reach: "recentReachable s \<longrightarrow> distinct (take 10 (p # filter (\<lambda>q. q \<noteq> p) ?xs))"
    using recentReachable_distinct [of s] mru_insert_distinct [of ?xs 10 p] by blast
  have a: "take 10 (p # filter (\<lambda>q. q \<noteq> p) ?xs) = take 10 (p # removeAll p ?xs)"
    by (simp only: filter_neq_removeAll)
  have b: "take 5 (p # filter (\<lambda>q. q \<noteq> p) prev) = take 5 (p # removeAll p prev)"
    by (simp only: filter_neq_removeAll)
  have c: "hd (take 10 (p # filter (\<lambda>q. q \<noteq> p) ?xs)) = p"
      "hd (take 5 (p # filter (\<lambda>q. q \<noteq> p) prev)) = p"
    by (rule mru_insert_hd, simp)+
  have d: "count_list (take 10 (p # filter (\<lambda>q. q \<noteq> p) ?xs)) p = 1"
      "count_list (take 5 (p # filter (\<lambda>q. q \<noteq> p) prev)) p = 1"
    by (rule mru_insert_count, simp)+
  show ?thesis
    unfolding store recentTemplatePromptsUpdate_def
    using a b c d frame reach
      mru_insert_length [of p ?xs 10] mru_insert_length [of p prev 5]
      mru_insert_distinct [of ?xs 10 p] mru_insert_distinct [of prev 5 p]
    by blast
qed

theorem addRecentTemplatePrompt_mru_witness:
  "recentReachable (addRecentTemplatePrompt ''dusk'' (addRecentTemplatePrompt ''noon'' initialStore))
   \<and> recentTemplatePrompts (addRecentTemplatePrompt ''dusk'' (addRecentTemplatePrompt ''noon'' initialStore))
       = [''dusk'', ''noon'']
   \<and> recentTemplatePrompts (addRecentTemplatePrompt ''noon''
         (addRecentTemplatePrompt ''dusk'' (addRecentTemplatePrompt ''noon'' initialStore)))
       = [''noon'', ''dusk'']
   \<and> distinct (recentTemplatePrompts (addRecentTemplatePrompt ''noon''
         (addRecentTemplatePrompt ''dusk'' (addRecentTemplatePrompt ''noon'' initialStore))))
   \<and> recentTemplatePromptsUpdate ''noon'' [''dusk'', ''noon'', ''dawn'']
       = [''noon'', ''dusk'', ''dawn'']"
proof -
  let ?s = "addRecentTemplatePrompt ''dusk'' (addRecentTemplatePrompt ''noon'' initialStore)"
  have r: "recentReachable ?s"
    by (intro recentReachable.intros)
  have xs: "recentTemplatePrompts ?s = [''dusk'', ''noon'']"
    by (simp add: addRecentTemplatePrompt_def initialStore_def)
  have m: "''noon'' \<in> set (recentTemplatePrompts ?s)" and d: "distinct (recentTemplatePrompts ?s)"
    by (simp_all add: xs)
  have "distinct (recentTemplatePrompts (addRecentTemplatePrompt ''noon'' ?s))"
    using addRecentTemplatePrompt_mru [of "''noon''" ?s] r by blast
  moreover have "recentTemplatePrompts (addRecentTemplatePrompt ''noon'' ?s) = [''noon'', ''dusk'']"
    using addRecentTemplatePrompt_mru [of "''noon''" ?s] by (simp add: xs)
  moreover have "recentTemplatePromptsUpdate ''noon'' [''dusk'', ''noon'', ''dawn'']
       = [''noon'', ''dusk'', ''dawn'']"
    using addRecentTemplatePrompt_mru [of "''noon''" ?s "[''dusk'', ''noon'', ''dawn'']"]
    by simp
  ultimately show ?thesis using r xs by simp
qed

section \<open>Recency store: history append\<close>

text \<open>
  C8. Appending a batch to the history puts the new entries in front of the existing ones
  and keeps the first K entries of that newest-first sequence (K = 50 in the store slice,
  K = 5 in the component): the result is a prefix of the combined sequence, entry by entry
  identical to it, of length \<open>min K N\<close> for N combined entries, so exactly the K most
  recent entries when K < N; what is dropped is the tail of the combined sequence.
\<close>

theorem addToHistory_prepend_truncate:
  "history (addToHistory a s) = take 50 (itemsToAdd a @ history s)
   \<and> length (history (addToHistory a s)) = min 50 (length (itemsToAdd a) + length (history s))
   \<and> prefix (history (addToHistory a s)) (itemsToAdd a @ history s)
   \<and> (\<forall>i < length (history (addToHistory a s)).
        history (addToHistory a s) ! i = (itemsToAdd a @ history s) ! i)
   \<and> (50 < length (itemsToAdd a) + length (history s) \<longrightarrow>
        length (history (addToHistory a s)) = 50)
   \<and> (length (itemsToAdd a) + length (history s) \<le> 50 \<longrightarrow>
        history (addToHistory a s) = itemsToAdd a @ history s)
   \<and> history (addToHistory a s) @ drop 50 (itemsToAdd a @ history s) = itemsToAdd a @ history s
   \<and> recentTemplatePrompts (addToHistory a s) = recentTemplatePrompts s
   \<and> recentSubjectPrompts (addToHistory a s) = recentSubjectPrompts s
   \<and> length (directHistoryUpdate new prev) = min 5 (length new + length prev)
   \<and> prefix (directHistoryUpdate new prev) (new @ prev)
   \<and> (\<forall>i < length (directHistoryUpdate new prev). directHistoryUpdate new prev ! i = (new @ prev) ! i)
   \<and> (5 < length new + length prev \<longrightarrow> length (directHistoryUpdate new prev) = 5)
   \<and> directHistoryUpdate new prev @ drop 5 (new @ prev) = new @ prev"
proof -
  have h: "history (addToHistory a s) = take 50 (itemsToAdd a @ history s)"
    by (simp add: addToHistory_def)
  have frame: "recentTemplatePrompts (addToHistory a s) = recentTemplatePrompts s
      \<and> recentSubjectPrompts (addToHistory a s) = recentSubjectPrompts s"
    by (simp add: addToHistory_def)
  have n1: "length (itemsToAdd a) + length (history s) = length (itemsToAdd a @ history s)"
    and n2: "length new + length prev = length (new @ prev)"
    by simp_all
  show ?thesis
    unfolding h directHistoryUpdate_def n1 n2
    using frame take_cap [of 50 "itemsToAdd a @ history s"] take_cap [of 5 "new @ prev"]
    by blast
qed

theorem addToHistory_prepend_truncate_witness:
  "50 < length (itemsToAdd (ItemArray (map sampleItem [0..<49])))
          + length (history (addToHistory (ItemArray [sampleItem 100, sampleItem 101]) initialStore))
   \<and> length (history (addToHistory (ItemArray (map sampleItem [0..<49]))
         (addToHistory (ItemArray [sampleItem 100, sampleItem 101]) initialStore))) = 50
   \<and> history (addToHistory (SingleItem (sampleItem 7))
         (addToHistory (ItemArray [sampleItem 100, sampleItem 101]) initialStore))
       = [sampleItem 7, sampleItem 100, sampleItem 101]
   \<and> directHistoryUpdate [sampleItem 1, sampleItem 2, sampleItem 3, sampleItem 4]
         [sampleItem 5, sampleItem 6]
       = [sampleItem 1, sampleItem 2, sampleItem 3, sampleItem 4, sampleItem 5]"
proof -
  let ?s = "addToHistory (ItemArray [sampleItem 100, sampleItem 101]) initialStore"
  let ?a = "ItemArray (map sampleItem [0..<49])"
  have hs: "history ?s = [sampleItem 100, sampleItem 101]"
    by (simp add: addToHistory_def initialStore_def)
  have big: "50 < length (itemsToAdd ?a) + length (history ?s)"
    by (simp add: hs)
  have "length (history (addToHistory ?a ?s)) = 50"
    using addToHistory_prepend_truncate [of ?a ?s] big by blast
  moreover have "history (addToHistory (SingleItem (sampleItem 7)) ?s)
       = [sampleItem 7, sampleItem 100, sampleItem 101]"
    using addToHistory_prepend_truncate [of "SingleItem (sampleItem 7)" ?s] by (simp add: hs)
  moreover have "directHistoryUpdate [sampleItem 1, sampleItem 2, sampleItem 3, sampleItem 4]
         [sampleItem 5, sampleItem 6]
       = [sampleItem 1, sampleItem 2, sampleItem 3, sampleItem 4, sampleItem 5]"
    by (simp add: directHistoryUpdate_def)
  ultimately show ?thesis using big by simp
qed

section \<open>Recency store: delete by id and clear\<close>



section \<open>Stock search aggregator: partial failure\<close>

lemma searchAllStockSites_eq:
  "searchAllStockSites a b c
     = Fulfilled (fulfilledResponse a @ fulfilledResponse b @ fulfilledResponse c)"
proof -
  have one: "concat (map resultValue (filter keepResult [toSettledResult p])) = fulfilledResponse p"
    for p :: "providerValue settled"
    by (cases p rule: fulfilledResponse.cases) simp_all
  have "concat (map resultValue (filter keepResult (map toSettledResult [a, b, c])))
      = concat (map resultValue (filter keepResult [toSettledResult a]))
        @ concat (map resultValue (filter keepResult [toSettledResult b]))
        @ concat (map resultValue (filter keepResult [toSettledResult c]))"
    by simp
  then show ?thesis
    by (simp only: searchAllStockSites_def promiseAllSettled_def Let_def one)
qed

text \<open>
  C3. The aggregate search always fulfils: its result is the results of the fulfilled
  providers, one provider after the other, and a provider whose request rejects (or
  fulfils with something that is no result list) adds nothing. When two of the three
  providers fail, the result is exactly the result list of the third.
\<close>

theorem searchAllStockSites_partial_failure:
  "searchAllStockSites a b c
     = Fulfilled (fulfilledResponse a @ fulfilledResponse b @ fulfilledResponse c)
   \<and> (\<exists>imgs. searchAllStockSites a b c = Fulfilled imgs
         \<and> set imgs = set (fulfilledResponse a) \<union> set (fulfilledResponse b)
                        \<union> set (fulfilledResponse c))
   \<and> searchAllStockSites (Fulfilled (ImageArray xs)) (Rejected e1) (Rejected e2) = Fulfilled xs
   \<and> searchAllStockSites (Rejected e1) (Fulfilled (ImageArray xs)) (Rejected e2) = Fulfilled xs
   \<and> searchAllStockSites (Rejected e1) (Rejected e2) (Fulfilled (ImageArray xs)) = Fulfilled xs
   \<and> searchAllStockSites (Rejected e1) (Fulfilled (ImageArray xs)) (Fulfilled (ImageArray ys))
       = Fulfilled (xs @ ys)
   \<and> searchAllStockSites (Fulfilled (ImageArray xs)) (Rejected e1) (Fulfilled (ImageArray ys))
       = Fulfilled (xs @ ys)
   \<and> searchAllStockSites (Fulfilled (ImageArray xs)) (Fulfilled (ImageArray ys)) (Rejected e1)
       = Fulfilled (xs @ ys)"
  by (simp add: searchAllStockSites_eq Un_assoc)

theorem searchAllStockSites_partial_failure_witness:
  "searchAllStockSites (Rejected (JsError ''Failed to fetch'')) (Rejected (JsError ''URI malformed''))
       (Fulfilled (ImageArray [stockImage Pixabay ''pixabay-7'', stockImage Pixabay ''pixabay-9'']))
     = Fulfilled [stockImage Pixabay ''pixabay-7'', stockImage Pixabay ''pixabay-9'']
   \<and> searchAllStockSites (Fulfilled (ImageArray [stockImage Pexels ''pexels-1'']))
       (Rejected (JsError ''Failed to fetch''))
       (Fulfilled (ImageArray [stockImage Pixabay ''pixabay-7'']))
     = Fulfilled [stockImage Pexels ''pexels-1'', stockImage Pixabay ''pixabay-7'']"
  using searchAllStockSites_partial_failure
    [of "Rejected (JsError ''Failed to fetch'')" "Rejected (JsError ''URI malformed'')"
        "Fulfilled (ImageArray [stockImage Pixabay ''pixabay-7'', stockImage Pixabay ''pixabay-9''])"]
    searchAllStockSites_partial_failure
    [of "Fulfilled (ImageArray [stockImage Pexels ''pexels-1''])"
        "Rejected (JsError ''Failed to fetch'')"
        "Fulfilled (ImageArray [stockImage Pixabay ''pixabay-7''])"]
  by simp

section \<open>Variation engine: joining the calls\<close>















section \<open>Final-image action: validation before dispatch\<close>

lemma generateFinalImage_dispatches_one:
  "length (snd (generateFinalImage ai s t sr n)) = 1"
  by (simp add: generateFinalImage_def Let_def)

lemma finalAction_no_prompt:
  assumes "\<not> truthy (subject_prompt_fd fd)"
  shows "generateFinalImageAction ai f2b now prev fd
     = (prev\<lparr>error_fs := Some ''Subject prompt is required.''\<rparr>, [])"
  using assms by (simp add: generateFinalImageAction_def Let_def)

lemma finalAction_no_template:
  assumes "truthy (subject_prompt_fd fd)" and "\<not> truthy (selected_template_fd fd)"
  shows "generateFinalImageAction ai f2b now prev fd
     = (prev\<lparr>error_fs := Some ''A template must be selected.''\<rparr>, [])"
  using assms by (simp add: generateFinalImageAction_def Let_def)

lemma finalAction_no_style:
  assumes "truthy (subject_prompt_fd fd)" and "truthy (selected_template_fd fd)"
    and "style_ref_fd fd = None"
  shows "snd (generateFinalImageAction ai f2b now prev fd)
     = snd (generateFinalImage ai (str (subject_prompt_fd fd)) (str (selected_template_fd fd))
              None (negative_prompt_ffd fd))"
  using assms
  by (simp add: generateFinalImageAction_def Let_def split: prod.splits settled.splits)

text \<open>
  C6. A stage-2 submission with an empty (or missing) subject prompt, or with no selected
  template, returns the previous state with a validation message as its error and
  dispatches no request to the generation capability. A request is dispatched only when
  the prompt is non-empty and a template is selected; with both, and no style reference
  to convert, exactly one request is dispatched.
\<close>

theorem generateFinalImageAction_validation:
  "(\<not> truthy (subject_prompt_fd fd) \<longrightarrow>
      generateFinalImageAction ai f2b now prev fd
        = (prev\<lparr>error_fs := Some ''Subject prompt is required.''\<rparr>, []))
   \<and> (truthy (subject_prompt_fd fd) \<and> \<not> truthy (selected_template_fd fd) \<longrightarrow>
      generateFinalImageAction ai f2b now prev fd
        = (prev\<lparr>error_fs := Some ''A template must be selected.''\<rparr>, []))
   \<and> (\<not> truthy (subject_prompt_fd fd) \<or> \<not> truthy (selected_template_fd fd) \<longrightarrow>
      snd (generateFinalImageAction ai f2b now prev fd) = []
      \<and> error_fs (fst (generateFinalImageAction ai f2b now prev fd)) \<noteq> None
      \<and> image_fs (fst (generateFinalImageAction ai f2b now prev fd)) = image_fs prev)
   \<and> (snd (generateFinalImageAction ai f2b now prev fd) \<noteq> [] \<longrightarrow>
      truthy (subject_prompt_fd fd) \<and> truthy (selected_template_fd fd))
   \<and> (truthy (subject_prompt_fd fd) \<and> truthy (selected_template_fd fd)
        \<and> style_ref_fd fd = None \<longrightarrow>
      length (snd (generateFinalImageAction ai f2b now prev fd)) = 1)"
proof -
  let ?r = "generateFinalImageAction ai f2b now prev fd"
  have a: "\<not> truthy (subject_prompt_fd fd) \<longrightarrow>
      ?r = (prev\<lparr>error_fs := Some ''Subject prompt is required.''\<rparr>, [])"
    using finalAction_no_prompt by blast
  have b: "truthy (subject_prompt_fd fd) \<and> \<not> truthy (selected_template_fd fd) \<longrightarrow>
      ?r = (prev\<lparr>error_fs := Some ''A template must be selected.''\<rparr>, [])"
    using finalAction_no_template by blast
  have c: "\<not> truthy (subject_prompt_fd fd) \<or> \<not> truthy (selected_template_fd fd) \<longrightarrow>
      snd ?r = [] \<and> error_fs (fst ?r) \<noteq> None \<and> image_fs (fst ?r) = image_fs prev"
  proof (cases "truthy (subject_prompt_fd fd)")
    case True
    then show ?thesis
      using finalAction_no_template [of fd ai f2b now prev] by auto
  next
    case False
    then show ?thesis
      using finalAction_no_prompt [of fd ai f2b now prev] by auto
  qed
  have d: "snd ?r \<noteq> [] \<longrightarrow> truthy (subject_prompt_fd fd) \<and> truthy (selected_template_fd fd)"
    using c by blast
  have e: "truthy (subject_prompt_fd fd) \<and> truthy (selected_template_fd fd)
        \<and> style_ref_fd fd = None \<longrightarrow> length (snd ?r) = 1"
    using finalAction_no_style [of fd ai f2b now prev] generateFinalImage_dispatches_one
    by simp
  show ?thesis using a b c d e by blast
qed

theorem generateFinalImageAction_validation_witness:
  "\<not> truthy (selected_template_fd \<lparr>subject_prompt_fd = Some ''a red kite'',
        negative_prompt_ffd = Some [], selected_template_fd = Some [], style_ref_fd = None\<rparr>)
   \<and> generateFinalImageAction firstCallNoImage fileReadOk 1000 initialFormState
        \<lparr>subject_prompt_fd = Some ''a red kite'', negative_prompt_ffd = Some [],
         selected_template_fd = Some [], style_ref_fd = None\<rparr>
     = (\<lparr>image_fs = None, error_fs = Some ''A template must be selected.'',
         promptUsed_fs = None\<rparr>, [])
   \<and> generateFinalImageAction firstCallNoImage fileReadOk 1000 initialFormState
        \<lparr>subject_prompt_fd = Some [], negative_prompt_ffd = Some [],
         selected_template_fd = Some ''data:image/png;base64,AAAA'', style_ref_fd = None\<rparr>
     = (\<lparr>image_fs = None, error_fs = Some ''Subject prompt is required.'',
         promptUsed_fs = None\<rparr>, [])
   \<and> length (snd (generateFinalImageAction firstCallNoImage fileReadOk 1000 initialFormState
        \<lparr>subject_prompt_fd = Some ''a red kite'', negative_prompt_ffd = Some [],
         selected_template_fd = Some ''data:image/png;base64,AAAA'', style_ref_fd = None\<rparr>)) = 1"
proof -
  let ?noT = "\<lparr>subject_prompt_fd = Some ''a red kite'', negative_prompt_ffd = Some [],
         selected_template_fd = Some [], style_ref_fd = None\<rparr>"
  let ?noP = "\<lparr>subject_prompt_fd = Some [], negative_prompt_ffd = Some [],
         selected_template_fd = Some ''data:image/png;base64,AAAA'', style_ref_fd = None\<rparr>"
  let ?ok = "\<lparr>subject_prompt_fd = Some ''a red kite'', negative_prompt_ffd = Some [],
         selected_template_fd = Some ''data:image/png;base64,AAAA'', style_ref_fd = None\<rparr>"
  have t1: "truthy (subject_prompt_fd ?noT) \<and> \<not> truthy (selected_template_fd ?noT)"
    by (simp add: truthy_def)
  have t2: "\<not> truthy (subject_prompt_fd ?noP)"
    by (simp add: truthy_def)
  have t3: "truthy (subject_prompt_fd ?ok) \<and> truthy (selected_template_fd ?ok)
      \<and> style_ref_fd ?ok = None"
    by (simp add: truthy_def)
  have "generateFinalImageAction firstCallNoImage fileReadOk 1000 initialFormState ?noT
     = (initialFormState\<lparr>error_fs := Some ''A template must be selected.''\<rparr>, [])"
    using generateFinalImageAction_validation [of ?noT firstCallNoImage fileReadOk 1000 initialFormState] t1
    by blast
  moreover have "generateFinalImageAction firstCallNoImage fileReadOk 1000 initialFormState ?noP
     = (initialFormState\<lparr>error_fs := Some ''Subject prompt is required.''\<rparr>, [])"
    using generateFinalImageAction_validation [of ?noP firstCallNoImage fileReadOk 1000 initialFormState] t2
    by blast
  moreover have "length (snd (generateFinalImageAction firstCallNoImage fileReadOk 1000 initialFormState ?ok)) = 1"
    using generateFinalImageAction_validation [of ?ok firstCallNoImage fileReadOk 1000 initialFormState] t3
    by blast
  ultimately show ?thesis
    using t1 by (simp add: initialFormState_def)
qed

section \<open>Template stage: what a success does to the selection\<close>

lemma templateAction_image:
  "image_fs (fst (generateTemplateAction ai now prev fd)) = image_fs prev
   \<or> image_fs (fst (generateTemplateAction ai now prev fd)) = None
   \<or> truthy (image_fs (fst (generateTemplateAction ai now prev fd)))"
  by (simp add: generateTemplateAction_def generateTemplateImage_def Let_def truthy_def
      split: settled.splits list.splits)

lemma templateResultBody_selects:
  assumes "truthy (image_fs ts)"
  shows "selectedTemplate (templateResultBody now ts st) = image_fs ts
    \<and> displayTemplateImage (templateResultBody now ts st) = image_fs ts"
  using assms by (simp add: templateResultBody_def Let_def)

text \<open>
  C1, as the claim states it, fails: in a fresh session, where no template is selected, a
  successful stage-1 generation for "P1" sets \<open>selectedTemplate\<close> to the generated image,
  and a second one for "P2" sets it to the second image, without any confirmation.
\<close>

theorem template_success_counterexample:
  "selectedTemplate initialComposition = None
   \<and> image_fs (fst (submitTemplate (imagesOk ''UDE='') 1000 (templateForm ''P1'')
        (initialFormState, initialComposition))) = Some ''data:image/png;base64,UDE=''
   \<and> selectedTemplate (snd (submitTemplate (imagesOk ''UDE='') 1000 (templateForm ''P1'')
        (initialFormState, initialComposition))) = Some ''data:image/png;base64,UDE=''
   \<and> selectedTemplate (snd (submitTemplate (imagesOk ''UDI='') 2000 (templateForm ''P2'')
        (submitTemplate (imagesOk ''UDE='') 1000 (templateForm ''P1'')
          (initialFormState, initialComposition)))) = Some ''data:image/png;base64,UDI=''"
  by (simp add: submitTemplate_def generateTemplateAction_def generateTemplateImage_def
      templateResultEffect_def templateResultBody_def templateForm_def initialFormState_def
      initialComposition_def truthy_def Let_def)

text \<open>
  C1, amended. A stage-1 submission whose action result carries a new image (a success; a
  failure carries no image and a validation error keeps the old one) sets both
  \<open>selectedTemplate\<close> and the displayed template to that image. A submission whose result
  carries no image, or the image of the previous result, leaves the session as it was.
  The confirm action sets \<open>selectedTemplate\<close> to the displayed template and changes
  nothing else.
\<close>

theorem template_success_selects:
  "(image_fs (fst (generateTemplateAction ai now prev fd)) = Some img
      \<and> image_fs prev \<noteq> Some img \<longrightarrow>
      selectedTemplate (snd (submitTemplate ai now fd (prev, st))) = Some img
      \<and> displayTemplateImage (snd (submitTemplate ai now fd (prev, st))) = Some img)
   \<and> (image_fs (fst (generateTemplateAction ai now prev fd)) = None
      \<or> image_fs (fst (generateTemplateAction ai now prev fd)) = image_fs prev \<longrightarrow>
      snd (submitTemplate ai now fd (prev, st)) = st)
   \<and> (truthy (displayTemplateImage st) \<longrightarrow>
      selectedTemplate (useThisTemplate st) = displayTemplateImage st)
   \<and> displayTemplateImage (useThisTemplate st) = displayTemplateImage st
   \<and> history_c (useThisTemplate st) = history_c st"
proof -
  let ?ts = "fst (generateTemplateAction ai now prev fd)"
  have sub: "snd (submitTemplate ai now fd (prev, st)) = templateResultEffect now prev ?ts st"
    by (simp add: submitTemplate_def Let_def)
  have a: "image_fs ?ts = Some img \<and> image_fs prev \<noteq> Some img \<longrightarrow>
      selectedTemplate (templateResultEffect now prev ?ts st) = Some img
      \<and> displayTemplateImage (templateResultEffect now prev ?ts st) = Some img"
  proof
    assume h: "image_fs ?ts = Some img \<and> image_fs prev \<noteq> Some img"
    then have "truthy (image_fs ?ts)"
      using templateAction_image [of ai now prev fd] by auto
    then show "selectedTemplate (templateResultEffect now prev ?ts st) = Some img
      \<and> displayTemplateImage (templateResultEffect now prev ?ts st) = Some img"
      using h templateResultBody_selects [of ?ts now st]
      by (auto simp add: templateResultEffect_def)
  qed
  have b: "image_fs ?ts = None \<or> image_fs ?ts = image_fs prev \<longrightarrow>
      templateResultEffect now prev ?ts st = st"
    by (auto simp add: templateResultEffect_def templateResultBody_def truthy_def)
  have c: "(truthy (displayTemplateImage st) \<longrightarrow>
      selectedTemplate (useThisTemplate st) = displayTemplateImage st)
   \<and> displayTemplateImage (useThisTemplate st) = displayTemplateImage st
   \<and> history_c (useThisTemplate st) = history_c st"
    by (simp add: useThisTemplate_def)
  show ?thesis
    unfolding sub using a b c by blast
qed

theorem template_success_selects_witness:
  "image_fs (fst (generateTemplateAction (imagesOk ''UDE='') 1000 initialFormState (templateForm ''P1'')))
     = Some ''data:image/png;base64,UDE=''
   \<and> image_fs initialFormState \<noteq> Some ''data:image/png;base64,UDE=''
   \<and> selectedTemplate (snd (submitTemplate (imagesOk ''UDE='') 1000 (templateForm ''P1'')
        (initialFormState, initialComposition))) = Some ''data:image/png;base64,UDE=''
   \<and> displayTemplateImage (snd (submitTemplate (imagesOk ''UDE='') 1000 (templateForm ''P1'')
        (initialFormState, initialComposition))) = Some ''data:image/png;base64,UDE=''
   \<and> truthy (displayTemplateImage
        (initialComposition\<lparr>displayTemplateImage := Some ''data:image/png;base64,Q1I=''\<rparr>))
   \<and> selectedTemplate (useThisTemplate
        (initialComposition\<lparr>displayTemplateImage := Some ''data:image/png;base64,Q1I=''\<rparr>))
     = Some ''data:image/png;base64,Q1I=''"
proof -
  let ?img = "''data:image/png;base64,UDE=''"
  let ?st = "initialComposition\<lparr>displayTemplateImage := Some ''data:image/png;base64,Q1I=''\<rparr>"
  have h1: "image_fs (fst (generateTemplateAction (imagesOk ''UDE='') 1000 initialFormState
        (templateForm ''P1''))) = Some ?img"
    by (simp add: generateTemplateAction_def generateTemplateImage_def templateForm_def
        truthy_def Let_def)
  have h2: "image_fs initialFormState \<noteq> Some ?img"
    by (simp add: initialFormState_def)
  have h3: "truthy (displayTemplateImage ?st)"
    by (simp add: truthy_def)
  have "selectedTemplate (snd (submitTemplate (imagesOk ''UDE='') 1000 (templateForm ''P1'')
        (initialFormState, initialComposition))) = Some ?img
     \<and> displayTemplateImage (snd (submitTemplate (imagesOk ''UDE='') 1000 (templateForm ''P1'')
        (initialFormState, initialComposition))) = Some ?img"
    using template_success_selects
      [of "imagesOk ''UDE=''" 1000 initialFormState "templateForm ''P1''" ?img initialComposition]
      h1 h2 by blast
  moreover have "selectedTemplate (useThisTemplate ?st) = displayTemplateImage ?st"
    using template_success_selects [of _ _ _ _ _ ?st] h3 by blast
  ultimately show ?thesis
    using h1 h2 h3 by simp
qed

section \<open>Negative-prompt suggestion: length bound and the empty input\<close>

lemma trim_Nil_iff: "trim s = [] \<longleftrightarrow> (\<forall>c \<in> set s. isWhiteSpace c)"
proof -
  let ?d = "dropWhile isWhiteSpace s"
  have "trim s = [] \<longleftrightarrow> dropWhile isWhiteSpace (rev ?d) = []"
    by (simp only: trim_def rev_is_Nil_conv)
  also have "\<dots> \<longleftrightarrow> (\<forall>c \<in> set ?d. isWhiteSpace c)"
    by (simp only: dropWhile_eq_Nil_conv set_rev)
  also have "\<dots> \<longleftrightarrow> ?d = []"
  proof
    assume all: "\<forall>c \<in> set ?d. isWhiteSpace c"
    show "?d = []"
    proof (rule ccontr)
      assume ne: "?d \<noteq> []"
      then have "\<not> isWhiteSpace (hd ?d)"
        by (rule hd_dropWhile)
      moreover have "hd ?d \<in> set ?d"
        using ne by (rule hd_in_set)
      ultimately show False using all by blast
    qed
  next
    assume e: "?d = []"
    show "\<forall>c \<in> set ?d. isWhiteSpace c"
      unfolding e by (simp only: list.set ball_empty)
  qed
  also have "\<dots> \<longleftrightarrow> (\<forall>c \<in> set s. isWhiteSpace c)"
    by (simp only: dropWhile_eq_Nil_conv)
  finally show ?thesis .
qed

lemma negativePrompt_result:
  assumes "trim p \<noteq> []"
  shows "generateNegativePrompt ai p
     = (case ai (negativePromptRequest p) of
          Rejected e \<Rightarrow> Rejected e
        | Fulfilled None \<Rightarrow> Rejected (JsError ''TypeError'')
        | Fulfilled (Some t) \<Rightarrow>
            Fulfilled (take 200 (trim (removeFirstCI ''Negative Prompt: '' (stripQuotes (trim t))))),
        [negativePromptRequest p])"
  using assms
  by (simp add: generateNegativePrompt_def Let_def split: settled.splits option.splits)

text \<open>
  C10. Whatever the external capability answers, a string that the suggestion operation
  returns has at most 200 characters, and it does return one whenever the capability
  answers with a text. For an empty prompt, or one of white space only, it returns the
  empty string without any request to the capability; for any other prompt it sends one
  request.
\<close>

theorem generateNegativePrompt_bounded:
  "(\<forall>s. fst (generateNegativePrompt ai p) = Fulfilled s \<longrightarrow> length s \<le> 200)
   \<and> ((\<forall>c \<in> set p. isWhiteSpace c) \<longrightarrow> generateNegativePrompt ai p = (Fulfilled [], []))
   \<and> (\<not> (\<forall>c \<in> set p. isWhiteSpace c) \<longrightarrow>
        snd (generateNegativePrompt ai p) = [negativePromptRequest p])
   \<and> (\<not> (\<forall>c \<in> set p. isWhiteSpace c) \<and> ai (negativePromptRequest p) = Fulfilled (Some t) \<longrightarrow>
        (\<exists>s. fst (generateNegativePrompt ai p) = Fulfilled s \<and> length s \<le> 200))"
proof (cases "trim p = []")
  case True
  then have "generateNegativePrompt ai p = (Fulfilled [], [])"
    by (simp add: generateNegativePrompt_def)
  then show ?thesis
    using True by (simp add: trim_Nil_iff)
next
  case False
  have ws: "\<not> (\<forall>c \<in> set p. isWhiteSpace c)"
    using False by (simp add: trim_Nil_iff)
  have r: "generateNegativePrompt ai p
     = (case ai (negativePromptRequest p) of
          Rejected e \<Rightarrow> Rejected e
        | Fulfilled None \<Rightarrow> Rejected (JsError ''TypeError'')
        | Fulfilled (Some t) \<Rightarrow>
            Fulfilled (take 200 (trim (removeFirstCI ''Negative Prompt: '' (stripQuotes (trim t))))),
        [negativePromptRequest p])"
    using False by (rule negativePrompt_result)
  have a: "\<forall>s. fst (generateNegativePrompt ai p) = Fulfilled s \<longrightarrow> length s \<le> 200"
    unfolding r by (auto split: settled.splits option.splits)
  have b: "snd (generateNegativePrompt ai p) = [negativePromptRequest p]"
    unfolding r by simp
  have c: "ai (negativePromptRequest p) = Fulfilled (Some t) \<longrightarrow>
        (\<exists>s. fst (generateNegativePrompt ai p) = Fulfilled s \<and> length s \<le> 200)"
    unfolding r by simp
  show ?thesis using ws a b c by blast
qed

theorem generateNegativePrompt_bounded_witness:
  "isWhiteSpace CHR '' ''
   \<and> generateNegativePrompt (textOk ''blurry'') ''  '' = (Fulfilled [], [])
   \<and> \<not> isWhiteSpace CHR ''a''
   \<and> textOk (replicate 300 CHR ''x'') (negativePromptRequest ''a kite'')
       = Fulfilled (Some (replicate 300 CHR ''x''))
   \<and> (\<exists>s. fst (generateNegativePrompt (textOk (replicate 300 CHR ''x'')) ''a kite'') = Fulfilled s
          \<and> length s \<le> 200)
   \<and> fst (generateNegativePrompt (textOk ''Negative prompt: blurry, text'') ''a kite'')
       = Fulfilled ''blurry, text''"
proof -
  have w1: "\<forall>c \<in> set ''  ''. isWhiteSpace c"
    by (simp add: isWhiteSpace_def)
  have w2: "\<not> (\<forall>c \<in> set ''a kite''. isWhiteSpace c)"
    by (simp add: isWhiteSpace_def)
  have ok: "textOk (replicate 300 CHR ''x'') (negativePromptRequest ''a kite'')
       = Fulfilled (Some (replicate 300 CHR ''x''))"
    by simp
  have e: "generateNegativePrompt (textOk ''blurry'') ''  '' = (Fulfilled [], [])"
    using generateNegativePrompt_bounded [of "textOk ''blurry''" "''  ''"] w1 by blast
  have l: "\<exists>s. fst (generateNegativePrompt (textOk (replicate 300 CHR ''x'')) ''a kite'') = Fulfilled s
          \<and> length s \<le> 200"
    using generateNegativePrompt_bounded
      [of "textOk (replicate 300 CHR ''x'')" "''a kite''" "replicate 300 CHR ''x''"] w2 ok
    by blast
  have t: "trim ''a kite'' \<noteq> []"
    using w2 trim_Nil_iff by blast
  have v: "fst (generateNegativePrompt (textOk ''Negative prompt: blurry, text'') ''a kite'')
       = Fulfilled ''blurry, text''"
    by code_simp
  have w3: "isWhiteSpace CHR '' '' \<and> \<not> isWhiteSpace CHR ''a''"
    by (simp add: isWhiteSpace_def)
  show ?thesis using w3 ok e l v by blast
qed

section \<open>Mask synthesis: out-paint\<close>

lemma sourceOver_opaque:
  assumes "alpha s = 1"
  shows "sourceOver s d = s"
  using assms by (cases s) (simp add: sourceOver_def)

lemma canvasDimension_in_range:
  assumes "0 \<le> v" and "v \<le> 2147483647"
  shows "canvasDimension dflt v = v"
  using assms by (simp add: canvasDimension_def)

lemma outpaintMask_size:
  "width_cv (outpaintMask (w, h) p) = canvasDimension 300 (w + left_pad p + right_pad p)
   \<and> height_cv (outpaintMask (w, h) p) = canvasDimension 150 (h + top_pad p + bottom_pad p)"
  by (simp add: outpaintMask_def fillRect_def createCanvas_def Let_def)

lemma outpaintBase_size:
  "width_cv (outpaintBase (Some img) (w, h) p)
     = canvasDimension 300 (w + left_pad p + right_pad p)
   \<and> height_cv (outpaintBase (Some img) (w, h) p)
     = canvasDimension 150 (h + top_pad p + bottom_pad p)"
  by (simp add: outpaintBase_def drawImage_def fillRect_def createCanvas_def Let_def)

lemma outpaintMask_pixel:
  assumes "inRect 0 0 (w + left_pad p + right_pad p) (h + top_pad p + bottom_pad p) x y"
  shows "pixel_cv (outpaintMask (w, h) p) x y
     = (if inRect (left_pad p) (top_pad p) w h x y then black else white)"
  using assms
  by (simp add: outpaintMask_def fillRect_def createCanvas_def Let_def sourceOver_def
      white_def black_def transparent_def)

lemma outpaintBase_pixel:
  assumes "inRect 0 0 (width_cv img + left_pad p + right_pad p)
             (height_cv img + top_pad p + bottom_pad p) x y"
  shows "pixel_cv (outpaintBase (Some img) (width_cv img, height_cv img) p) x y
     = (if inRect (left_pad p) (top_pad p) (width_cv img) (height_cv img) x y
        then sourceOver (pixel_cv img (x - left_pad p) (y - top_pad p)) white
        else white)"
proof -
  have w: "sourceOver white transparent = white"
    by (simp add: sourceOver_def white_def transparent_def)
  have t: "sourceOver transparent white = white"
    by (simp add: sourceOver_def white_def transparent_def)
  show ?thesis
    using assms
    by (simp add: outpaintBase_def drawImage_def fillRect_def createCanvas_def Let_def w t)
qed

lemma keep_rect_inside:
  assumes "0 \<le> t" "0 \<le> r" "0 \<le> b" "0 \<le> l" and "inRect l t w h x y"
  shows "inRect 0 0 (w + l + r) (h + t + b) x y"
  using assms by (simp add: inRect_def)

text \<open>
  C5, as the claim states it, fails: a canvas dimension cannot exceed 2147483647. With the
  non-negative padding (0, 0, 0, 2147483648) on a 4 by 5 image, w + l + r is 2147483652,
  and both the base canvas and the mask get the default width 300 instead; the keep
  rectangle, which starts at x = 2147483648, then lies outside the canvas.
\<close>

theorem outpaint_large_padding_counterexample:
  "width_cv (outpaintMask (4, 5)
      \<lparr>top_pad = 0, right_pad = 0, bottom_pad = 0, left_pad = 2147483648\<rparr>) = 300
   \<and> width_cv (outpaintBase (Some (greyImage 4 5)) (4, 5)
      \<lparr>top_pad = 0, right_pad = 0, bottom_pad = 0, left_pad = 2147483648\<rparr>) = 300
   \<and> height_cv (outpaintMask (4, 5)
      \<lparr>top_pad = 0, right_pad = 0, bottom_pad = 0, left_pad = 2147483648\<rparr>) = 5
   \<and> (4 :: int) + 2147483648 + 0 = 2147483652
   \<and> inRect 2147483648 0 4 5 2147483648 0
   \<and> \<not> inRect 0 0 300 5 2147483648 0"
  by (simp add: outpaintMask_size outpaintBase_size canvasDimension_def inRect_def)

text \<open>
  C5, amended. For an out-paint submission with non-negative padding (t, r, b, l) on an
  image of width w and height h, where w + l + r and h + t + b are at most 2147483647 (the
  largest canvas dimension), the submitted base canvas and the submitted mask both have
  size (w + l + r, h + t + b). The keep rectangle at (l, t) of size w by h lies inside the
  canvas; there the base canvas shows the image drawn at offset (l, t) (over the white
  fill, so an opaque image pixel as it is) and the mask is black ("keep"); every other
  pixel of the canvas is white in both ("paint" in the mask). With all-zero padding the
  mask is black over the whole canvas.
\<close>

theorem outpaint_canvas_and_mask:
  assumes "0 \<le> top_pad p" and "0 \<le> right_pad p" and "0 \<le> bottom_pad p" and "0 \<le> left_pad p"
    and "originalDims = (width_cv img, height_cv img)"
    and "0 \<le> width_cv img" and "0 \<le> height_cv img"
    and "width_cv img + left_pad p + right_pad p \<le> 2147483647"
    and "height_cv img + top_pad p + bottom_pad p \<le> 2147483647"
  shows "base_image_ef (handleSubmit Outpaint cur mref (Some img) originalDims p form)
       = Some (CanvasPng (outpaintBase (Some img) originalDims p))
   \<and> mask_image_ef (handleSubmit Outpaint cur mref (Some img) originalDims p form)
       = Some (CanvasPng (outpaintMask originalDims p))
   \<and> width_cv (outpaintBase (Some img) originalDims p)
       = width_cv img + left_pad p + right_pad p
   \<and> height_cv (outpaintBase (Some img) originalDims p)
       = height_cv img + top_pad p + bottom_pad p
   \<and> width_cv (outpaintMask originalDims p) = width_cv img + left_pad p + right_pad p
   \<and> height_cv (outpaintMask originalDims p) = height_cv img + top_pad p + bottom_pad p
   \<and> (inRect (left_pad p) (top_pad p) (width_cv img) (height_cv img) x y \<longrightarrow>
        inRect 0 0 (width_cv img + left_pad p + right_pad p)
          (height_cv img + top_pad p + bottom_pad p) x y
        \<and> pixel_cv (outpaintMask originalDims p) x y = black
        \<and> pixel_cv (outpaintBase (Some img) originalDims p) x y
            = sourceOver (pixel_cv img (x - left_pad p) (y - top_pad p)) white
        \<and> (alpha (pixel_cv img (x - left_pad p) (y - top_pad p)) = 1 \<longrightarrow>
             pixel_cv (outpaintBase (Some img) originalDims p) x y
               = pixel_cv img (x - left_pad p) (y - top_pad p)))
   \<and> (inRect 0 0 (width_cv img + left_pad p + right_pad p)
          (height_cv img + top_pad p + bottom_pad p) x y
        \<and> \<not> inRect (left_pad p) (top_pad p) (width_cv img) (height_cv img) x y \<longrightarrow>
        pixel_cv (outpaintMask originalDims p) x y = white
        \<and> pixel_cv (outpaintBase (Some img) originalDims p) x y = white)
   \<and> (top_pad p = 0 \<and> right_pad p = 0 \<and> bottom_pad p = 0 \<and> left_pad p = 0
        \<and> inRect 0 0 (width_cv img) (height_cv img) x y \<longrightarrow>
        pixel_cv (outpaintMask originalDims p) x y = black)"
proof -
  let ?w = "width_cv img" and ?h = "height_cv img"
  let ?W = "?w + left_pad p + right_pad p" and ?H = "?h + top_pad p + bottom_pad p"
  let ?keep = "inRect (left_pad p) (top_pad p) ?w ?h x y"
  note d = assms(5)
  have form: "base_image_ef (handleSubmit Outpaint cur mref (Some img) originalDims p form)
       = Some (CanvasPng (outpaintBase (Some img) originalDims p))
   \<and> mask_image_ef (handleSubmit Outpaint cur mref (Some img) originalDims p form)
       = Some (CanvasPng (outpaintMask originalDims p))"
    by (simp add: handleSubmit_def)
  have W0: "0 \<le> ?W" and H0: "0 \<le> ?H"
    using assms(1-4) assms(6) assms(7) by simp_all
  have dW: "canvasDimension 300 ?W = ?W"
    using W0 assms(8) by (rule canvasDimension_in_range)
  have dH: "canvasDimension 150 ?H = ?H"
    using H0 assms(9) by (rule canvasDimension_in_range)
  have size: "width_cv (outpaintBase (Some img) originalDims p) = ?W
   \<and> height_cv (outpaintBase (Some img) originalDims p) = ?H
   \<and> width_cv (outpaintMask originalDims p) = ?W
   \<and> height_cv (outpaintMask originalDims p) = ?H"
    unfolding d using outpaintBase_size [of img ?w ?h p] outpaintMask_size [of ?w ?h p] dW dH
    by simp
  have inside: "?keep \<longrightarrow> inRect 0 0 ?W ?H x y"
    using keep_rect_inside [OF assms(1) assms(2) assms(3) assms(4)] by blast
  have mask: "inRect 0 0 ?W ?H x y \<longrightarrow>
      pixel_cv (outpaintMask originalDims p) x y = (if ?keep then black else white)"
    unfolding d using outpaintMask_pixel [of ?w p ?h x y] by blast
  have base: "inRect 0 0 ?W ?H x y \<longrightarrow>
      pixel_cv (outpaintBase (Some img) originalDims p) x y
        = (if ?keep then sourceOver (pixel_cv img (x - left_pad p) (y - top_pad p)) white
           else white)"
    unfolding d using outpaintBase_pixel [of img p x y] by blast
  have opaque: "alpha (pixel_cv img (x - left_pad p) (y - top_pad p)) = 1 \<longrightarrow>
      sourceOver (pixel_cv img (x - left_pad p) (y - top_pad p)) white
        = pixel_cv img (x - left_pad p) (y - top_pad p)"
    using sourceOver_opaque by blast
  have keep: "?keep \<longrightarrow>
        inRect 0 0 ?W ?H x y
        \<and> pixel_cv (outpaintMask originalDims p) x y = black
        \<and> pixel_cv (outpaintBase (Some img) originalDims p) x y
            = sourceOver (pixel_cv img (x - left_pad p) (y - top_pad p)) white
        \<and> (alpha (pixel_cv img (x - left_pad p) (y - top_pad p)) = 1 \<longrightarrow>
             pixel_cv (outpaintBase (Some img) originalDims p) x y
               = pixel_cv img (x - left_pad p) (y - top_pad p))"
    using inside mask base opaque by simp
  have paint: "inRect 0 0 ?W ?H x y \<and> \<not> ?keep \<longrightarrow>
        pixel_cv (outpaintMask originalDims p) x y = white
        \<and> pixel_cv (outpaintBase (Some img) originalDims p) x y = white"
    using mask base by simp
  have zero: "top_pad p = 0 \<and> right_pad p = 0 \<and> bottom_pad p = 0 \<and> left_pad p = 0
        \<and> inRect 0 0 ?w ?h x y \<longrightarrow>
        pixel_cv (outpaintMask originalDims p) x y = black"
    using keep by auto
  show ?thesis
    using form size keep paint zero by blast
qed

theorem outpaint_canvas_and_mask_witness:
  "(0::int) \<le> top_pad \<lparr>top_pad = 1, right_pad = 0, bottom_pad = 3, left_pad = 2\<rparr>
   \<and> width_cv (greyImage 4 5) + 2 + 0 \<le> 2147483647
   \<and> width_cv (outpaintMask (4, 5) \<lparr>top_pad = 1, right_pad = 0, bottom_pad = 3, left_pad = 2\<rparr>) = 6
   \<and> height_cv (outpaintMask (4, 5) \<lparr>top_pad = 1, right_pad = 0, bottom_pad = 3, left_pad = 2\<rparr>) = 9
   \<and> inRect 2 1 4 5 2 1
   \<and> pixel_cv (outpaintMask (4, 5) \<lparr>top_pad = 1, right_pad = 0, bottom_pad = 3, left_pad = 2\<rparr>) 2 1
       = black
   \<and> pixel_cv (outpaintBase (Some (greyImage 4 5)) (4, 5)
        \<lparr>top_pad = 1, right_pad = 0, bottom_pad = 3, left_pad = 2\<rparr>) 2 1 = greyPixel 0 0
   \<and> pixel_cv (outpaintMask (4, 5) \<lparr>top_pad = 1, right_pad = 0, bottom_pad = 3, left_pad = 2\<rparr>) 1 1
       = white
   \<and> pixel_cv (outpaintMask (4, 5) \<lparr>top_pad = 0, right_pad = 0, bottom_pad = 0, left_pad = 0\<rparr>) 3 4
       = black"
proof -
  let ?p = "\<lparr>top_pad = 1, right_pad = 0, bottom_pad = 3, left_pad = 2\<rparr>"
  let ?z = "\<lparr>top_pad = 0, right_pad = 0, bottom_pad = 0, left_pad = 0\<rparr>"
  let ?img = "greyImage 4 5"
  have dims: "(4, 5) = (width_cv ?img, height_cv ?img)"
    by (simp add: greyImage_def)
  have nn: "0 \<le> width_cv ?img" "0 \<le> height_cv ?img"
    by (simp_all add: greyImage_def)
  have pp: "0 \<le> top_pad ?p" "0 \<le> right_pad ?p" "0 \<le> bottom_pad ?p" "0 \<le> left_pad ?p"
    by simp_all
  have pz: "0 \<le> top_pad ?z" "0 \<le> right_pad ?z" "0 \<le> bottom_pad ?z" "0 \<le> left_pad ?z"
    by simp_all
  have bp: "width_cv ?img + left_pad ?p + right_pad ?p \<le> 2147483647"
      "height_cv ?img + top_pad ?p + bottom_pad ?p \<le> 2147483647"
    by (simp_all add: greyImage_def)
  have bz: "width_cv ?img + left_pad ?z + right_pad ?z \<le> 2147483647"
      "height_cv ?img + top_pad ?z + bottom_pad ?z \<le> 2147483647"
    by (simp_all add: greyImage_def)
  have k: "inRect (left_pad ?p) (top_pad ?p) (width_cv ?img) (height_cv ?img) 2 1"
    by (simp add: inRect_def greyImage_def)
  have nk: "inRect 0 0 (width_cv ?img + left_pad ?p + right_pad ?p)
          (height_cv ?img + top_pad ?p + bottom_pad ?p) 1 1
        \<and> \<not> inRect (left_pad ?p) (top_pad ?p) (width_cv ?img) (height_cv ?img) 1 1"
    by (simp add: inRect_def greyImage_def)
  have zk: "top_pad ?z = 0 \<and> right_pad ?z = 0 \<and> bottom_pad ?z = 0 \<and> left_pad ?z = 0
        \<and> inRect 0 0 (width_cv ?img) (height_cv ?img) 3 4"
    by (simp add: inRect_def greyImage_def)
  have op: "alpha (pixel_cv ?img (2 - left_pad ?p) (1 - top_pad ?p)) = 1"
    by (simp add: greyImage_def)
  note A = outpaint_canvas_and_mask [OF pp dims nn bp, where x = 2 and y = 1]
  note B = outpaint_canvas_and_mask [OF pp dims nn bp, where x = 1 and y = 1]
  note C = outpaint_canvas_and_mask [OF pz dims nn bz, where x = 3 and y = 4]
  have s: "width_cv (outpaintMask (4, 5) ?p) = 6 \<and> height_cv (outpaintMask (4, 5) ?p) = 9"
    using A by (simp add: greyImage_def)
  have m1: "pixel_cv (outpaintMask (4, 5) ?p) 2 1 = black"
    using A k by blast
  have b1: "pixel_cv (outpaintBase (Some ?img) (4, 5) ?p) 2 1
      = pixel_cv ?img (2 - left_pad ?p) (1 - top_pad ?p)"
    using A k op by blast
  have m2: "pixel_cv (outpaintMask (4, 5) ?p) 1 1 = white"
    using B nk by blast
  have m3: "pixel_cv (outpaintMask (4, 5) ?z) 3 4 = black"
    using C zk by blast
  have g: "pixel_cv ?img (2 - left_pad ?p) (1 - top_pad ?p) = greyPixel 0 0"
    by (simp add: greyImage_def)
  have k': "inRect 2 1 4 5 2 1"
    by (simp add: inRect_def)
  have b': "width_cv ?img + 2 + 0 \<le> 2147483647"
    by (simp add: greyImage_def)
  show ?thesis
    using s m1 b1 m2 m3 g k' b' by simp
qed

section \<open>Mask synthesis: in-paint\<close>

lemma inpaintMask_pixel:
  assumes "inRect 0 0 (width_cv m) (height_cv m) x y"
  shows "pixel_cv (inpaintMask m) x y
     = \<lparr>red = alpha (pixel_cv m x y), green = alpha (pixel_cv m x y),
        blue = alpha (pixel_cv m x y), alpha = 1\<rparr>"
  using assms
  by (simp add: inpaintMask_def drawImage_def fillRect_def createCanvas_def Let_def
      sourceOver_def sourceIn_def white_def black_def transparent_def)

text \<open>
  C4. The code at a failing input: one dab of the brush on an empty 4 by 4 overlay. The
  pixel (1, 1), fully inside the dab, has overlay alpha 7/10, which is not zero, and the
  submitted mask has the grey (7/10, 7/10, 7/10) there: neither the white of "paint" nor
  the black of "keep". The \<open>source-in\<close> fill keeps the overlay's alpha, so the mask
  repeats the overlay's alpha as a grey level instead of thresholding it. A pixel that no
  dab touched is black, and the base image is passed on as it is.
\<close>

theorem inpaint_mask_grey_under_dab:
  "alpha (pixel_cv (fillArc fullCoverage (createCanvas 4 4)) 1 1) = 7 / 10
   \<and> mask_image_ef (handleSubmit Inpaint ''data:image/png;base64,AAAA''
        (Some (fillArc fullCoverage (createCanvas 4 4))) None (4, 4)
        \<lparr>top_pad = 0, right_pad = 0, bottom_pad = 0, left_pad = 0\<rparr> emptyForm)
       = Some (CanvasPng (inpaintMask (fillArc fullCoverage (createCanvas 4 4))))
   \<and> pixel_cv (inpaintMask (fillArc fullCoverage (createCanvas 4 4))) 1 1
       = \<lparr>red = 7 / 10, green = 7 / 10, blue = 7 / 10, alpha = 1\<rparr>
   \<and> pixel_cv (inpaintMask (fillArc fullCoverage (createCanvas 4 4))) 1 1 \<noteq> white
   \<and> pixel_cv (inpaintMask (fillArc fullCoverage (createCanvas 4 4))) 1 1 \<noteq> black
   \<and> pixel_cv (inpaintMask (createCanvas 4 4)) 1 1 = black
   \<and> base_image_ef (handleSubmit Inpaint ''data:image/png;base64,AAAA''
        (Some (fillArc fullCoverage (createCanvas 4 4))) None (4, 4)
        \<lparr>top_pad = 0, right_pad = 0, bottom_pad = 0, left_pad = 0\<rparr> emptyForm)
       = Some (ImageSrc ''data:image/png;base64,AAAA'')"
proof -
  let ?o = "fillArc fullCoverage (createCanvas 4 4)"
  have a: "alpha (pixel_cv ?o 1 1) = 7 / 10"
    by (simp add: fillArc_def createCanvas_def sourceOver_def brush_def transparent_def)
  have i: "inRect 0 0 (width_cv ?o) (height_cv ?o) 1 1"
    by (simp add: inRect_def fillArc_def createCanvas_def)
  have p: "pixel_cv (inpaintMask ?o) 1 1
      = \<lparr>red = 7 / 10, green = 7 / 10, blue = 7 / 10, alpha = 1\<rparr>"
    using inpaintMask_pixel [OF i] a by simp
  have e: "pixel_cv (inpaintMask (createCanvas 4 4)) 1 1 = black"
    using inpaintMask_pixel [of "createCanvas 4 4" 1 1]
    by (simp add: inRect_def createCanvas_def transparent_def black_def)
  have f: "handleSubmit Inpaint ''data:image/png;base64,AAAA'' (Some ?o) None (4, 4)
        \<lparr>top_pad = 0, right_pad = 0, bottom_pad = 0, left_pad = 0\<rparr> emptyForm
      = \<lparr>base_image_ef = Some (ImageSrc ''data:image/png;base64,AAAA''),
         mask_image_ef = Some (CanvasPng (inpaintMask ?o))\<rparr>"
    by (simp add: handleSubmit_def emptyForm_def)
  show ?thesis
    unfolding f p using a e by (simp add: white_def black_def)
qed

end
